theory Spec2Isabelle
  imports Complex_Main "HOL-Library.Sublist" "HOL-Library.AList"
begin

section \<open>Python text primitives used by the chatbots\<close>

text \<open>
  Python text is modelled as a list of 8-bit characters read as the code points
  U+0000 to U+00FF. \<open>str.strip()\<close> removes the white space of that range at both
  ends; \<open>str.splitlines()\<close> cuts at the line boundaries of that range, a carriage return
  followed by a line feed counting once, and gives no empty last line.
\<close>

definition py_isspace :: "char \<Rightarrow> bool" where
  "py_isspace c = (of_char c \<in> {9, 10, 11, 12, 13, 28, 29, 30, 31, 32, 133, 160 :: nat})"

definition py_islinebreak :: "char \<Rightarrow> bool" where
  "py_islinebreak c = (of_char c \<in> {10, 11, 12, 13, 28, 29, 30, 133 :: nat})"

definition py_strip :: "string \<Rightarrow> string" where
  "py_strip s = rev (dropWhile py_isspace (rev (dropWhile py_isspace s)))"

fun splitlines_from :: "string \<Rightarrow> string \<Rightarrow> string list" where
  "splitlines_from cur [] = (if cur = [] then [] else [cur])"
| "splitlines_from cur (c # cs) =
     (if c = CHR 0x0D \<and> cs \<noteq> [] \<and> hd cs = CHR 0x0A then cur # splitlines_from [] (tl cs)
      else if py_islinebreak c then cur # splitlines_from [] cs
      else splitlines_from (cur @ [c]) cs)"

definition splitlines :: "string \<Rightarrow> string list" where
  "splitlines s = splitlines_from [] s"

fun py_join :: "string \<Rightarrow> string list \<Rightarrow> string" where
  "py_join sep [] = []"
| "py_join sep [x] = x"
| "py_join sep (x # y # ys) = x @ sep @ py_join sep (y # ys)"

definition startswith :: "string \<Rightarrow> string \<Rightarrow> bool" where
  "startswith s p = prefix p s"

definition fence :: string where
  "fence = ''```''"

definition newline :: string where
  "newline = [CHR 0x0A]"

definition quote :: string where
  "quote = [CHR 0x27]"

section \<open>Python values and exceptions\<close>

text \<open>
  What \<open>json.loads\<close> returns: \<open>None\<close>, a bool, an int, a float (a finite one, by its
  value), a str, a list, or a dict, the dict as its items in insertion order.
\<close>

datatype json =
    JNull
  | JBool bool
  | JInt int
  | JFloat real
  | JStr string
  | JArr "json list"
  | JObj "(string \<times> json) list"

text \<open>An exception is its class name and the text \<open>str(e)\<close> gives.\<close>

datatype exn = Exn (exn_class: string) (exn_str: string)

definition IndexError :: exn where
  "IndexError = Exn ''IndexError'' ''list index out of range''"

definition AttributeError :: "string \<Rightarrow> string \<Rightarrow> exn" where
  "AttributeError ty attr =
     Exn ''AttributeError'' (quote @ ty @ quote @ '' object has no attribute '' @ quote @ attr @ quote)"

fun py_type_name :: "json \<Rightarrow> string" where
  "py_type_name JNull = ''NoneType''"
| "py_type_name (JBool b) = ''bool''"
| "py_type_name (JInt i) = ''int''"
| "py_type_name (JFloat r) = ''float''"
| "py_type_name (JStr s) = ''str''"
| "py_type_name (JArr xs) = ''list''"
| "py_type_name (JObj kvs) = ''dict''"

text \<open>
  Unpacking \<open>**v\<close> in a call when \<open>v\<close> is not a mapping: the text starts with the
  name the interpreter prints for the callee.
\<close>

definition TypeError_kwargs :: "string \<Rightarrow> json \<Rightarrow> exn" where
  "TypeError_kwargs callee v =
     Exn ''TypeError''
       (callee @ ''() argument after ** must be a mapping, not '' @ py_type_name v)"

text \<open>
  What a call of \<open>json.loads\<close> on a text does: it returns the parsed value, or raises
  \<open>JSONDecodeError\<close>, or raises another exception (\<open>RecursionError\<close> on a text nested
  too deep, \<open>ValueError\<close> on an integer with too many digits).
\<close>

datatype loads_result = Parsed json | JSONDecodeError | Raised exn

text \<open>Truth value of an object, as \<open>not x\<close> tests it.\<close>

fun py_truthy :: "json \<Rightarrow> bool" where
  "py_truthy JNull = False"
| "py_truthy (JBool b) = b"
| "py_truthy (JInt i) = (i \<noteq> 0)"
| "py_truthy (JFloat r) = (r \<noteq> 0)"
| "py_truthy (JStr s) = (s \<noteq> [])"
| "py_truthy (JArr xs) = (xs \<noteq> [])"
| "py_truthy (JObj kvs) = (kvs \<noteq> [])"

text \<open>
  \<open>d.get(k, default)\<close>: only a dict has the method; on any other object the attribute
  lookup raises \<open>AttributeError\<close>. \<open>d.get(k)\<close> is \<open>dict_get d k JNull\<close>.
\<close>

definition dict_get :: "json \<Rightarrow> string \<Rightarrow> json \<Rightarrow> exn + json" where
  "dict_get d k dflt =
     (case d of
        JObj kvs \<Rightarrow> Inr (case map_of kvs k of Some v \<Rightarrow> v | None \<Rightarrow> dflt)
      | _ \<Rightarrow> Inl (AttributeError (py_type_name d) ''get''))"

section \<open>Conversation turns, result records, collaborators\<close>

text \<open>A history entry is the dict \<open>{"role": ..., "content": ...}\<close>.\<close>

record turn =
  role :: string
  content :: string

text \<open>
  A column value of a result record either has an \<open>items\<close> attribute (a node, a
  relationship or a map, given by its property items in order) or has none.
\<close>

datatype 'v colval = Scalar 'v | Composite "(string \<times> 'v) list"

type_synonym 'v row = "(string \<times> 'v colval) list"

text \<open>
  The collaborators of one chatbot instance:
  \<^item> \<open>loads\<close>: \<open>json.loads\<close>;
  \<^item> \<open>chat_completion\<close>: \<open>client.chat.completions.create(model=..., messages=...)\<close>
    of the OpenRouter client, read at \<open>.choices[0].message.content\<close>;
  \<^item> \<open>generate_content\<close>: \<open>client.models.generate_content(model=..., contents=...)\<close>
    of the Gemini client, read at \<open>.text\<close>;
  \<^item> \<open>session_run\<close>: \<open>session.run(query, **params)\<close> with its records read out;
  \<^item> \<open>run_name\<close>: the name the interpreter prints for \<open>session.run\<close> in the text of
    a call error (\<open>run\<close>, or the qualified name, as the interpreter's version has it);
  \<^item> \<open>format_value\<close>: the text an f-string gives for a store value.
  Each call either raises or returns; the text read from a model reply may be \<open>None\<close>.
\<close>

record 'v env =
  loads :: "string \<Rightarrow> loads_result"
  chat_completion :: "turn list \<Rightarrow> exn + string option"
  generate_content :: "string \<Rightarrow> exn + string option"
  session_run :: "json \<Rightarrow> (string \<times> json) list \<Rightarrow> exn + 'v row list"
  run_name :: string
  format_value :: "'v \<Rightarrow> string"

text \<open>
  The state of one chatbot: \<open>self.history\<close>, and what its driver has been asked to do:
  how many sessions were opened and which \<open>session.run\<close> calls were made.
\<close>

record bot =
  history :: "turn list"
  sessions_opened :: nat
  queries_run :: "(json \<times> (string \<times> json) list) list"

text \<open>\<open>self.history.append({"role": r, "content": c})\<close>\<close>

definition append_turn :: "string \<Rightarrow> string \<Rightarrow> bot \<Rightarrow> bot" where
  "append_turn r c s = s\<lparr>history := history s @ [\<lparr>role = r, content = c\<rparr>]\<rparr>"

section \<open>Stripping code fences\<close>

text \<open>\<open>xs[0]\<close> and \<open>xs[-1]\<close> raise \<open>IndexError\<close> on the empty list.\<close>

definition first_item :: "string list \<Rightarrow> exn + string" where
  "first_item xs = (case xs of [] \<Rightarrow> Inl IndexError | x # _ \<Rightarrow> Inr x)"

definition last_item :: "string list \<Rightarrow> exn + string" where
  "last_item xs = (if xs = [] then Inl IndexError else Inr (last xs))"

text \<open>
  \<open>generate_cypher\<close> of both chatbots (chatbot.py 206-210, gemini\_chatbot.py 54-58)
  indexes the line list without testing that it is non-empty.
\<close>

definition strip_fences_unguarded :: "string \<Rightarrow> exn + string" where
  "strip_fences_unguarded raw =
     (if startswith raw fence then
        (let parts = splitlines raw in
         case first_item parts of
           Inl x \<Rightarrow> Inl x
         | Inr p \<Rightarrow>
             (let parts1 = (if startswith p fence then tl parts else parts) in
              case last_item parts1 of
                Inl x \<Rightarrow> Inl x
              | Inr l \<Rightarrow>
                  Inr (py_join newline
                        (if startswith l fence then butlast parts1 else parts1))))
      else Inr raw)"

text \<open>
  \<open>understand_question\<close> (chatbot.py 149-157) writes \<open>lines and lines[0].startswith(...)\<close>:
  the index is evaluated only when the list is non-empty.
\<close>

definition nonempty_and :: "string list \<Rightarrow> exn + bool \<Rightarrow> exn + bool" where
  "nonempty_and xs test = (if xs = [] then Inr False else test)"

definition is_fence :: "exn + string \<Rightarrow> exn + bool" where
  "is_fence item = (case item of Inl x \<Rightarrow> Inl x | Inr l \<Rightarrow> Inr (startswith l fence))"

definition strip_fences_guarded :: "string \<Rightarrow> exn + string" where
  "strip_fences_guarded raw =
     (if startswith raw fence then
        (let lines0 = splitlines raw in
         case nonempty_and lines0 (is_fence (first_item lines0)) of
           Inl x \<Rightarrow> Inl x
         | Inr b \<Rightarrow>
             (let lines1 = (if b then tl lines0 else lines0) in
              case nonempty_and lines1 (is_fence (last_item lines1)) of
                Inl x \<Rightarrow> Inl x
              | Inr b' \<Rightarrow> Inr (py_join newline (if b' then butlast lines1 else lines1))))
      else Inr raw)"

section \<open>Translation: from a question to a query\<close>

definition schema :: string where
  "schema =
     ''Given the Neo4j database schema with the following definitions:\<newline>'' @
     ''- Person nodes have properties: person_id (unique), name, birth_year, profession, nationality\<newline>'' @
     ''- Movie nodes have properties: movie_id (unique), title, year, genre, director, rating\<newline>'' @
     ''- Relationships: ACTED_IN has property character_name; DIRECTED has no extra properties\<newline>'' @
     ''If user entity names have typos or inconsistent casing, correct them to the nearest valid entries before extracting. '' @
     ''Extract 'intent' and 'entities' from the user question and respond strictly with a JSON object containing 'intent' and 'entities'.''"

definition cypher_prompt :: "string \<Rightarrow> string" where
  "cypher_prompt user_question =
     ''Given the Neo4j database schema with the following definitions:\<newline>'' @
     ''- Person(person_id, name, birth_year, profession, nationality)\<newline>'' @
     ''- Movie(movie_id, title, year, genre, director, rating)\<newline>'' @
     ''- Relationships: ACTED_IN(character_name), DIRECTED(no properties)\<newline>'' @
     ''Generate a Cypher query and JSON parameters to answer: '' @ quote @ user_question @ quote @ ''. '' @
     ''Respond strictly with a JSON object containing 'query' and 'params'.''"

text \<open>
  What both \<open>generate_cypher\<close> methods do with the text of the model's reply: strip it,
  take the fences off, parse. \<open>except json.JSONDecodeError\<close> gives the empty dict;
  any other exception of the parser is not caught.
\<close>

definition parsed_or_empty :: "loads_result \<Rightarrow> exn + json" where
  "parsed_or_empty r =
     (case r of Parsed v \<Rightarrow> Inr v | JSONDecodeError \<Rightarrow> Inr (JObj []) | Raised x \<Rightarrow> Inl x)"

definition parse_cypher_reply :: "(string \<Rightarrow> loads_result) \<Rightarrow> string \<Rightarrow> exn + json" where
  "parse_cypher_reply json_loads reply =
     (case strip_fences_unguarded (py_strip reply) of
        Inl e \<Rightarrow> Inl e
      | Inr raw \<Rightarrow> parsed_or_empty (json_loads raw))"

definition read_reply ::
  "(string \<Rightarrow> loads_result) \<Rightarrow> exn + string option \<Rightarrow> exn + json" where
  "read_reply json_loads response =
     (case response of
        Inl e \<Rightarrow> Inl e
      | Inr None \<Rightarrow> Inl (AttributeError ''NoneType'' ''strip'')
      | Inr (Some reply) \<Rightarrow> parse_cypher_reply json_loads reply)"

definition MovieChatbot_generate_cypher :: "'v env \<Rightarrow> string \<Rightarrow> exn + json" where
  "MovieChatbot_generate_cypher e user_question =
     read_reply (loads e)
       (chat_completion e [\<lparr>role = ''system'', content = cypher_prompt user_question\<rparr>])"

definition GeminiMovieChatbot_generate_cypher :: "'v env \<Rightarrow> string \<Rightarrow> exn + json" where
  "GeminiMovieChatbot_generate_cypher e user_question =
     read_reply (loads e) (generate_content e (cypher_prompt user_question))"

text \<open>The intent-classification parser of \<open>MovieChatbot\<close>.\<close>

definition parse_intent_reply :: "(string \<Rightarrow> loads_result) \<Rightarrow> string \<Rightarrow> exn + json" where
  "parse_intent_reply json_loads reply =
     (case strip_fences_guarded (py_strip reply) of
        Inl x \<Rightarrow> Inl x
      | Inr raw \<Rightarrow> parsed_or_empty (json_loads raw))"

definition understand_question :: "'v env \<Rightarrow> string \<Rightarrow> exn + json" where
  "understand_question e user_question =
     (case chat_completion e
             [\<lparr>role = ''system'', content = schema\<rparr>,
              \<lparr>role = ''user'', content = ''Question: '' @ user_question\<rparr>] of
        Inl x \<Rightarrow> Inl x
      | Inr None \<Rightarrow> Inl (AttributeError ''NoneType'' ''strip'')
      | Inr (Some reply) \<Rightarrow> parse_intent_reply (loads e) reply)"

section \<open>The canned searches of the intent path\<close>

text \<open>
  \<open>with self.driver.session(...) as session: result = session.run(query, **kw);
  return [record for record in result]\<close>: one session is opened and one query is run.
\<close>

definition run_in_session ::
  "'v env \<Rightarrow> json \<Rightarrow> (string \<times> json) list \<Rightarrow> bot \<Rightarrow> (exn + 'v row list) \<times> bot" where
  "run_in_session e query kw s =
     (session_run e query kw,
      s\<lparr>sessions_opened := sessions_opened s + 1, queries_run := queries_run s @ [(query, kw)]\<rparr>)"











section \<open>Executing a generated query\<close>

text \<open>
  \<open>with self.driver.session(database=...) as session: records = [r for r in
  session.run(query, **params)]\<close>, the same in both chatbots. The session is opened before
  the call is evaluated; unpacking a \<open>params\<close> that is not a dict raises \<open>TypeError\<close>
  before \<open>run\<close> is entered.
\<close>

definition execute_query ::
  "'v env \<Rightarrow> json \<Rightarrow> json \<Rightarrow> bot \<Rightarrow> (exn + 'v row list) \<times> bot" where
  "execute_query e query params s =
     (case params of
        JObj kw \<Rightarrow> run_in_session e query kw s
      | _ \<Rightarrow> (Inl (TypeError_kwargs (run_name e) params),
              s\<lparr>sessions_opened := sessions_opened s + 1\<rparr>))"

section \<open>Formatting the result records\<close>

text \<open>
  The three nested \<open>for\<close> loops of \<open>chat\<close> (chatbot.py 232-242, gemini\_chatbot.py
  117-125), each appending to its list.
\<close>

definition append_props ::
  "('v \<Rightarrow> string) \<Rightarrow> string list \<Rightarrow> (string \<times> 'v) list \<Rightarrow> string list" where
  "append_props fmt parts props =
     foldl (\<lambda>acc (prop, val). acc @ [prop @ '': '' @ fmt val]) parts props"

definition append_column ::
  "('v \<Rightarrow> string) \<Rightarrow> string list \<Rightarrow> string \<times> 'v colval \<Rightarrow> string list" where
  "append_column fmt parts kv =
     (case kv of
        (key, Composite props) \<Rightarrow> append_props fmt parts props
      | (key, Scalar v) \<Rightarrow> parts @ [key @ '': '' @ fmt v])"

definition record_parts :: "('v \<Rightarrow> string) \<Rightarrow> 'v row \<Rightarrow> string list" where
  "record_parts fmt rec = foldl (append_column fmt) [] rec"

definition append_record ::
  "('v \<Rightarrow> string) \<Rightarrow> string list \<Rightarrow> 'v row \<Rightarrow> string list" where
  "append_record fmt raw_lines rec =
     raw_lines @ [''- '' @ py_join '', '' (record_parts fmt rec)]"

definition results_header :: "string \<Rightarrow> string" where
  "results_header user_question = ''Results for '' @ quote @ user_question @ quote @ '':''"

definition raw_text :: "('v \<Rightarrow> string) \<Rightarrow> string \<Rightarrow> 'v row list \<Rightarrow> string" where
  "raw_text fmt user_question records =
     py_join newline (foldl (append_record fmt) [results_header user_question] records)"

definition user_msg :: "string \<Rightarrow> string \<Rightarrow> string" where
  "user_msg user_question raw =
     ''User question: '' @ user_question @ newline @
     ''Database query results:'' @ newline @
     raw @ newline @
     ''Please answer the question based on these results.''"

section \<open>MovieChatbot.chat\<close>

definition MovieChatbot_no_results :: string where
  "MovieChatbot_no_results = ''Sorry, I couldn't find anything for your question.''"

definition MovieChatbot_system_msg :: string where
  "MovieChatbot_system_msg =
     ''You are ChatGPT, an AI assistant specialized in answering movie database queries. '' @
     ''Use the provided query results to answer the user question concisely and clearly, in markdown format when appropriate.''"

text \<open>chatbot.py 229-265: from the test of \<open>records\<close> to the end of \<open>chat\<close>.\<close>

definition MovieChatbot_respond ::
  "'v env \<Rightarrow> string \<Rightarrow> 'v row list \<Rightarrow> bot \<Rightarrow> (exn + string) \<times> bot" where
  "MovieChatbot_respond e user_question records s =
     (if records = [] then (Inr MovieChatbot_no_results, s)
      else
        (let s1 = append_turn ''user''
                    (user_msg user_question (raw_text (format_value e) user_question records)) s
         in case chat_completion e
                   (\<lparr>role = ''system'', content = MovieChatbot_system_msg\<rparr> # history s1) of
              Inl x \<Rightarrow> (Inl x, s1)
            | Inr None \<Rightarrow> (Inl (AttributeError ''NoneType'' ''strip''), s1)
            | Inr (Some reply) \<Rightarrow>
                (Inr (py_strip reply), append_turn ''assistant'' (py_strip reply) s1)))"

text \<open>chatbot.py 217-228, then the rest: there is no test of \<open>query\<close>.\<close>

definition MovieChatbot_chat :: "'v env \<Rightarrow> string \<Rightarrow> bot \<Rightarrow> (exn + string) \<times> bot" where
  "MovieChatbot_chat e user_question s =
     (let s1 = append_turn ''user'' user_question s
      in case MovieChatbot_generate_cypher e user_question of
           Inl x \<Rightarrow> (Inl x, s1)
         | Inr info \<Rightarrow>
             (case dict_get info ''query'' JNull of
                Inl x \<Rightarrow> (Inl x, s1)
              | Inr query \<Rightarrow>
                  (case dict_get info ''params'' (JObj []) of
                     Inl x \<Rightarrow> (Inl x, s1)
                   | Inr params \<Rightarrow>
                       (case execute_query e query params s1 of
                          (Inl x, s2) \<Rightarrow> (Inl x, s2)
                        | (Inr records, s2) \<Rightarrow>
                            MovieChatbot_respond e user_question records s2))))"

section \<open>GeminiMovieChatbot.chat\<close>

definition Gemini_no_query :: string where
  "Gemini_no_query = ''Sorry, couldn't generate query.''"

definition Gemini_no_results :: string where
  "Gemini_no_results = ''Sorry, I couldn't find anything.''"

definition Gemini_system_msg :: string where
  "Gemini_system_msg =
     ''You are a friendly, human-like movie expert chatting with the user. '' @
     ''Use the full conversation context to handle follow-up questions and references naturally. '' @
     ''Respond in a warm, conversational tone as if talking in person, using Markdown when helpful. '' @
     ''If the user asks for details or actors, query the database accordingly.''"

definition combined :: "turn list \<Rightarrow> string" where
  "combined h =
     Gemini_system_msg @ newline @
     py_join newline (map (\<lambda>m. role m @ '': '' @ content m) h)"

text \<open>gemini\_chatbot.py 114-151.\<close>

definition GeminiMovieChatbot_respond ::
  "'v env \<Rightarrow> string \<Rightarrow> 'v row list \<Rightarrow> bot \<Rightarrow> (exn + string) \<times> bot" where
  "GeminiMovieChatbot_respond e user_question records s =
     (if records = [] then (Inr Gemini_no_results, s)
      else
        (let s1 = append_turn ''user''
                    (user_msg user_question (raw_text (format_value e) user_question records)) s
         in case generate_content e (combined (history s1)) of
              Inl x \<Rightarrow> (Inl x, s1)
            | Inr None \<Rightarrow> (Inl (AttributeError ''NoneType'' ''strip''), s1)
            | Inr (Some reply) \<Rightarrow>
                (Inr (py_strip reply), append_turn ''assistant'' (py_strip reply) s1)))"

text \<open>gemini\_chatbot.py 100-113, then the rest: \<open>if not q\<close> returns before any session.\<close>

definition GeminiMovieChatbot_chat ::
  "'v env \<Rightarrow> string \<Rightarrow> bot \<Rightarrow> (exn + string) \<times> bot" where
  "GeminiMovieChatbot_chat e user_question s =
     (let s1 = append_turn ''user'' user_question s
      in case GeminiMovieChatbot_generate_cypher e user_question of
           Inl x \<Rightarrow> (Inl x, s1)
         | Inr info \<Rightarrow>
             (case dict_get info ''query'' JNull of
                Inl x \<Rightarrow> (Inl x, s1)
              | Inr q \<Rightarrow>
                  (case dict_get info ''params'' (JObj []) of
                     Inl x \<Rightarrow> (Inl x, s1)
                   | Inr p \<Rightarrow>
                       if \<not> py_truthy q then (Inr Gemini_no_query, s1)
                       else
                         (case execute_query e q p s1 of
                            (Inl x, s2) \<Rightarrow> (Inl x, s2)
                          | (Inr records, s2) \<Rightarrow>
                              GeminiMovieChatbot_respond e user_question records s2))))"

section \<open>The HTTP endpoint\<close>

text \<open>
  app.py 155-165. The request body is the JSON object the page sends: a question and a
  model name, each a string when present. The two chatbots are module-level objects, so
  their state outlives the request. \<open>except Exception\<close> turns what \<open>bot.chat\<close> raises
  into an answer.
\<close>

record request =
  question :: "string option"
  model :: "string option"

record app =
  chatbot :: bot
  gemini_bot :: bot

definition problem_prefix :: string where
  "problem_prefix = ''Sorry, I had a problem: ''"

definition chat :: "'v env \<Rightarrow> request \<Rightarrow> app \<Rightarrow> string \<times> app" where
  "chat e data a =
     (let q = (case question data of Some t \<Rightarrow> t | None \<Rightarrow> []);
          use_gemini = (model data = Some ''gemini'')
      in if use_gemini then
           (case GeminiMovieChatbot_chat e q (gemini_bot a) of
              (Inr answer, b) \<Rightarrow> (answer, a\<lparr>gemini_bot := b\<rparr>)
            | (Inl x, b) \<Rightarrow> (problem_prefix @ exn_str x, a\<lparr>gemini_bot := b\<rparr>))
         else
           (case MovieChatbot_chat e q (chatbot a) of
              (Inr answer, b) \<Rightarrow> (answer, a\<lparr>chatbot := b\<rparr>)
            | (Inl x, b) \<Rightarrow> (problem_prefix @ exn_str x, a\<lparr>chatbot := b\<rparr>)))"

section \<open>The formatting rule, as the specification words it\<close>

text \<open>
  A column whose value exposes key-value pairs gives one entry \<open>prop: value\<close> per
  property, any other column gives the entry \<open>column: value\<close>; a record is one line of
  its entries, columns in the order of the record; the block is the header line followed
  by the records' lines in the order of the sequence.
\<close>

fun column_entries :: "('v \<Rightarrow> string) \<Rightarrow> string \<times> 'v colval \<Rightarrow> string list" where
  "column_entries fmt (column, Scalar v) = [column @ '': '' @ fmt v]"
| "column_entries fmt (column, Composite props) =
     map (\<lambda>(prop, v). prop @ '': '' @ fmt v) props"

definition record_line :: "('v \<Rightarrow> string) \<Rightarrow> 'v row \<Rightarrow> string" where
  "record_line fmt rec = ''- '' @ py_join '', '' (concat (map (column_entries fmt) rec))"

definition results_block :: "('v \<Rightarrow> string) \<Rightarrow> string \<Rightarrow> 'v row list \<Rightarrow> string" where
  "results_block fmt user_question records =
     py_join newline (results_header user_question # map (record_line fmt) records)"

section \<open>A test double for the collaborators\<close>

text \<open>
  For evaluating the chatbots on concrete conversations: a reader for the JSON texts
  made of objects, arrays, strings without escapes, integers, \<open>true\<close>, \<open>false\<close> and
  \<open>null\<close>, which gives on such a text what \<open>json.loads\<close> gives (a repeated key keeps its
  first place and its last value) and reports a decode error on any other text; a model
  and a store that answer with fixed replies; store values that are strings, which an
  f-string shows as they are.
\<close>

definition json_ws :: "char \<Rightarrow> bool" where
  "json_ws c = (c = CHR '' '' \<or> c = CHR 0x09 \<or> c = CHR 0x0A \<or> c = CHR 0x0D)"

definition skip_ws :: "string \<Rightarrow> string" where
  "skip_ws s = dropWhile json_ws s"

definition is_digit :: "char \<Rightarrow> bool" where
  "is_digit c = (48 \<le> (of_char c :: nat) \<and> (of_char c :: nat) \<le> 57)"

fun scan_string :: "string \<Rightarrow> (string \<times> string) option" where
  "scan_string [] = None"
| "scan_string (c # cs) =
     (if c = CHR 0x22 then Some ([], cs)
      else if c = CHR 0x5C then None
      else if (of_char c :: nat) < 32 then None
      else (case scan_string cs of None \<Rightarrow> None | Some (t, r) \<Rightarrow> Some (c # t, r)))"

definition scan_int :: "string \<Rightarrow> (int \<times> string) option" where
  "scan_int s =
     (let neg = (if s = [] then False else hd s = CHR ''-'');
          t = (if neg then tl s else s);
          ds = takeWhile is_digit t;
          r = dropWhile is_digit t;
          n = foldl (\<lambda>a c. 10 * a + (int (of_char c) - 48)) 0 ds
      in if ds = [] then None
         else if hd ds = CHR ''0'' \<and> 1 < length ds then None
         else if r = [] then Some (if neg then - n else n, r)
         else if hd r = CHR ''.'' \<or> hd r = CHR ''e'' \<or> hd r = CHR ''E'' then None
         else Some (if neg then - n else n, r))"

definition next_is :: "char \<Rightarrow> string \<Rightarrow> bool" where
  "next_is c s = (case skip_ws s of [] \<Rightarrow> False | d # _ \<Rightarrow> d = c)"

definition after_next :: "string \<Rightarrow> string" where
  "after_next s = tl (skip_ws s)"

fun scan_value :: "nat \<Rightarrow> string \<Rightarrow> (json \<times> string) option"
and scan_elems :: "nat \<Rightarrow> json list \<Rightarrow> string \<Rightarrow> (json \<times> string) option"
and scan_members :: "nat \<Rightarrow> (string \<times> json) list \<Rightarrow> string \<Rightarrow> (json \<times> string) option" where
  "scan_value 0 s = None"
| "scan_value (Suc n) s =
     (if next_is (CHR ''{'') s then
        (if next_is (CHR ''}'') (after_next s) then Some (JObj [], after_next (after_next s))
         else scan_members n [] (after_next s))
      else if next_is (CHR ''['') s then
        (if next_is (CHR '']'') (after_next s) then Some (JArr [], after_next (after_next s))
         else scan_elems n [] (after_next s))
      else if next_is (CHR 0x22) s then
        (case scan_string (after_next s) of None \<Rightarrow> None | Some (x, r) \<Rightarrow> Some (JStr x, r))
      else if prefix ''null'' (skip_ws s) then Some (JNull, drop 4 (skip_ws s))
      else if prefix ''true'' (skip_ws s) then Some (JBool True, drop 4 (skip_ws s))
      else if prefix ''false'' (skip_ws s) then Some (JBool False, drop 5 (skip_ws s))
      else (case scan_int (skip_ws s) of None \<Rightarrow> None | Some (i, r) \<Rightarrow> Some (JInt i, r)))"
| "scan_elems 0 acc s = None"
| "scan_elems (Suc n) acc s =
     (case scan_value n s of
        None \<Rightarrow> None
      | Some (v, r) \<Rightarrow>
          (if next_is (CHR '','') r then scan_elems n (acc @ [v]) (after_next r)
           else if next_is (CHR '']'') r then Some (JArr (acc @ [v]), after_next r)
           else None))"
| "scan_members 0 acc s = None"
| "scan_members (Suc n) acc s =
     (if next_is (CHR 0x22) s then
        (case scan_string (after_next s) of
           None \<Rightarrow> None
         | Some (k, r) \<Rightarrow>
             (if next_is (CHR '':'') r then
                (case scan_value n (after_next r) of
                   None \<Rightarrow> None
                 | Some (v, r') \<Rightarrow>
                     (if next_is (CHR '','') r'
                      then scan_members n (AList.update k v acc) (after_next r')
                      else if next_is (CHR ''}'') r'
                      then Some (JObj (AList.update k v acc), after_next r')
                      else None))
              else None))
      else None)"

definition json_loads :: "string \<Rightarrow> loads_result" where
  "json_loads s =
     (case scan_value (2 * length s + 2) s of
        None \<Rightarrow> JSONDecodeError
      | Some (v, r) \<Rightarrow> if skip_ws r = [] then Parsed v else JSONDecodeError)"

text \<open>
  The model answers a translation request (one message, or a prompt that starts with
  the schema) with \<open>translation\<close> and any other request with \<open>synthesis\<close>; the store
  answers every query with \<open>store\<close>.
\<close>

definition double ::
  "exn + string option \<Rightarrow> exn + string row list \<Rightarrow> exn + string option \<Rightarrow> string env" where
  "double translation store synthesis =
     \<lparr>loads = json_loads,
      chat_completion = (\<lambda>messages. if length messages = 1 then translation else synthesis),
      generate_content = (\<lambda>contents. if startswith contents ''Given'' then translation else synthesis),
      session_run = (\<lambda>query kw. store),
      run_name = ''neo4j._sync.work.session.Session.run'',
      format_value = (\<lambda>v. v)\<rparr>"

definition new_bot :: bot where
  "new_bot = \<lparr>history = [], sessions_opened = 0, queries_run = []\<rparr>"

definition new_app :: app where
  "new_app = \<lparr>chatbot = new_bot, gemini_bot = new_bot\<rparr>"

definition rating_reply :: string where
  "rating_reply =
     ''```json\<newline>'' @
     ''{\"query\": \"MATCH (m:Movie {title: $title}) RETURN m.rating AS rating\", '' @
     ''\"params\": {\"title\": \"Inception\"}}\<newline>'' @
     ''```''"

definition rating_query :: json where
  "rating_query = JStr ''MATCH (m:Movie {title: $title}) RETURN m.rating AS rating''"

text \<open>
  A reply that is fenced and is not JSON; the driver's answer to a query that is
  \<open>None\<close>; a store error.
\<close>

definition malformed_reply :: string where
  "malformed_reply = ''```json\<newline>{not json}\<newline>```''"

definition empty_query_error :: exn where
  "empty_query_error = Exn ''ValueError'' ''Cannot run an empty query''"

definition syntax_error :: exn where
  "syntax_error = Exn ''CypherSyntaxError'' ''Invalid input 'RETURNS': expected a clause''"

text \<open>The question of the rating scenario and the translation the reader gives for it.\<close>

definition rating_question :: string where
  "rating_question = ''What is the rating of Inception?''"

definition rating_info :: json where
  "rating_info =
     JObj [(''query'', rating_query), (''params'', JObj [(''title'', JStr ''Inception'')])]"

text \<open>
  A store with one record for the rating query, the model's answer to it, and the block
  the formatting gives for that record; a failure of a model call; the two requests of
  the page; a chatbot that has been in use.
\<close>

definition rating_records :: "string row list" where
  "rating_records = [[(''rating'', Scalar ''8.8'')]]"

definition rating_answer :: string where
  "rating_answer = '' The rating of Inception is 8.8.\<newline>''"

definition rating_block :: string where
  "rating_block =
     ''Results for 'What is the rating of Inception?':\<newline>'' @
     ''- rating: 8.8''"

definition api_error :: exn where
  "api_error = Exn ''APIConnectionError'' ''Connection error.''"

definition deepseek_request :: request where
  "deepseek_request = \<lparr>question = Some rating_question, model = Some ''deepseek''\<rparr>"

definition gemini_request :: request where
  "gemini_request = \<lparr>question = Some rating_question, model = Some ''gemini''\<rparr>"

definition earlier_bot :: bot where
  "earlier_bot =
     \<lparr>history = [\<lparr>role = ''user'', content = ''Hello''\<rparr>], sessions_opened = 3, queries_run = []\<rparr>"

text \<open>
  A reply that is JSON and is not an object; a reply whose parameters are a list.
\<close>

definition list_reply :: string where
  "list_reply = ''[1, 2]''"

definition list_params_reply :: string where
  "list_params_reply = ''{\"query\": \"RETURN 1\", \"params\": [1]}''"

section \<open>The history only grows\<close>

lemma history_append_turn [simp]:
  "history (append_turn r c s) = history s @ [\<lparr>role = r, content = c\<rparr>]"
  by (simp add: append_turn_def)

lemma run_in_session_history [simp]:
  "history (snd (run_in_session e query kw s)) = history s"
  by (simp add: run_in_session_def)

lemma execute_query_history [simp]:
  "history (snd (execute_query e query params s)) = history s"
  by (cases params) (simp_all add: execute_query_def)

lemma execute_query_history_eq:
  "execute_query e query params s = (r, s') \<Longrightarrow> history s' = history s"
  using execute_query_history [of e query params s] by simp

lemma MovieChatbot_respond_prefix:
  "prefix (history s) (history (snd (MovieChatbot_respond e q records s)))"
  by (simp add: MovieChatbot_respond_def Let_def split: sum.split option.split)

lemma GeminiMovieChatbot_respond_prefix:
  "prefix (history s) (history (snd (GeminiMovieChatbot_respond e q records s)))"
  by (simp add: GeminiMovieChatbot_respond_def Let_def split: sum.split option.split)

lemma prefix_after_question:
  "prefix (history s2) h \<Longrightarrow> history s2 = history s @ [t] \<Longrightarrow> prefix (history s) h"
  by (metis prefix_order.trans prefixI)

lemma MovieChatbot_chat_prefix:
  "prefix (history s) (history (snd (MovieChatbot_chat e q s)))"
  unfolding MovieChatbot_chat_def Let_def
  by (auto split: sum.split prod.split dest!: execute_query_history_eq
           intro: prefix_after_question [OF MovieChatbot_respond_prefix])

lemma GeminiMovieChatbot_chat_prefix:
  "prefix (history s) (history (snd (GeminiMovieChatbot_chat e q s)))"
  unfolding GeminiMovieChatbot_chat_def Let_def
  by (auto split: sum.split prod.split dest!: execute_query_history_eq
           intro: prefix_after_question [OF GeminiMovieChatbot_respond_prefix])

text \<open>
  C8. Whatever the model, the parser and the store do, and whether \<open>chat\<close> returns or
  raises, the history after a call of \<open>chat\<close> starts with the history before it: turns are
  only appended. This holds for each chatbot, and for both chatbots of the application
  across a request to the endpoint.
\<close>

theorem history_append_only:
  "prefix (history s) (history (snd (MovieChatbot_chat e q s))) \<and>
   prefix (history s) (history (snd (GeminiMovieChatbot_chat e q s))) \<and>
   prefix (history (chatbot a)) (history (chatbot (snd (chat e d a)))) \<and>
   prefix (history (gemini_bot a)) (history (gemini_bot (snd (chat e d a))))"
proof -
  have c: "prefix (history (chatbot a)) (history (chatbot (snd (chat e d a))))"
    using MovieChatbot_chat_prefix [of "chatbot a" e "case question d of Some t \<Rightarrow> t | None \<Rightarrow> []"]
    by (auto simp: chat_def Let_def split: prod.split sum.split)
  have g: "prefix (history (gemini_bot a)) (history (gemini_bot (snd (chat e d a))))"
    using GeminiMovieChatbot_chat_prefix [of "gemini_bot a" e "case question d of Some t \<Rightarrow> t | None \<Rightarrow> []"]
    by (auto simp: chat_def Let_def split: prod.split sum.split)
  from c g show ?thesis
    by (simp add: MovieChatbot_chat_prefix GeminiMovieChatbot_chat_prefix)
qed

section \<open>Formatting follows the rule\<close>

lemma append_props_eq:
  "append_props fmt parts props = parts @ map (\<lambda>(prop, v). prop @ '': '' @ fmt v) props"
  unfolding append_props_def
  by (induction props arbitrary: parts) (auto split: prod.split)

lemma append_column_eq:
  "append_column fmt parts kv = parts @ column_entries fmt kv"
  by (cases kv; cases "snd kv") (auto simp: append_column_def append_props_eq)

lemma foldl_append_column:
  "foldl (append_column fmt) parts rec = parts @ concat (map (column_entries fmt) rec)"
  by (induction rec arbitrary: parts) (simp_all add: append_column_eq)

lemma record_parts_eq:
  "record_parts fmt rec = concat (map (column_entries fmt) rec)"
  by (simp add: record_parts_def foldl_append_column)

lemma foldl_append_record:
  "foldl (append_record fmt) ls records = ls @ map (record_line fmt) records"
  by (induction records arbitrary: ls)
     (simp_all add: append_record_def record_line_def record_parts_eq)

text \<open>
  C6. The text the loops of \<open>chat\<close> build is the block of the formatting rule: after the
  header, one line per record in the order of the sequence, each line the entries of the
  record's columns in their order, a column with key-value pairs giving one
  \<open>prop: value\<close> entry per property in the order of its items, any other column the
  entry \<open>column: value\<close>. Nothing is sorted.
\<close>

theorem raw_text_is_results_block:
  "raw_text fmt user_question records = results_block fmt user_question records"
  by (simp add: raw_text_def results_block_def foldl_append_record)

section \<open>The canned searches\<close>



section \<open>Parsing the model's reply\<close>

lemma strip_fences_guarded_returns:
  "\<exists>raw'. strip_fences_guarded raw = Inr raw'"
  by (cases "splitlines raw")
     (simp_all add: strip_fences_guarded_def nonempty_and_def is_fence_def first_item_def
        last_item_def Let_def)

text \<open>
  C9, as amended. For every reply text and every behaviour of the JSON parser,
  the fence stripping of \<open>understand_question\<close> returns a text: no index is read on an
  empty list, so no \<open>IndexError\<close> is raised. On that text the method returns the value
  the parser gives, whatever JSON value that is; it returns the empty dict when the
  parser raises \<open>JSONDecodeError\<close>; and it raises what the parser raises otherwise.
\<close>

theorem understand_question_reply_outcomes:
  "\<exists>raw. strip_fences_guarded (py_strip reply) = Inr raw \<and>
         parse_intent_reply L reply =
           (case L raw of
              Parsed v \<Rightarrow> Inr v
            | JSONDecodeError \<Rightarrow> Inr (JObj [])
            | Raised x \<Rightarrow> Inl x)"
proof -
  obtain raw where r: "strip_fences_guarded (py_strip reply) = Inr raw"
    using strip_fences_guarded_returns by blast
  then have "parse_intent_reply L reply =
           (case L raw of
              Parsed v \<Rightarrow> Inr v
            | JSONDecodeError \<Rightarrow> Inr (JObj [])
            | Raised x \<Rightarrow> Inl x)"
    by (simp add: parse_intent_reply_def parsed_or_empty_def)
  with r show ?thesis by blast
qed

text \<open>
  So the method raises exactly when the model call raises, when the reply has no text,
  or when the parser raises something else than \<open>JSONDecodeError\<close>.
\<close>

lemma understand_question_raises_iff:
  "understand_question e q = Inl x \<longleftrightarrow>
     chat_completion e
       [\<lparr>role = ''system'', content = schema\<rparr>,
        \<lparr>role = ''user'', content = ''Question: '' @ q\<rparr>] = Inl x \<or>
     (chat_completion e
       [\<lparr>role = ''system'', content = schema\<rparr>,
        \<lparr>role = ''user'', content = ''Question: '' @ q\<rparr>] = Inr None \<and>
      x = AttributeError ''NoneType'' ''strip'') \<or>
     (\<exists>reply raw.
        chat_completion e
          [\<lparr>role = ''system'', content = schema\<rparr>,
           \<lparr>role = ''user'', content = ''Question: '' @ q\<rparr>] = Inr (Some reply) \<and>
        strip_fences_guarded (py_strip reply) = Inr raw \<and> loads e raw = Raised x)"
proof -
  have p: "parse_intent_reply (loads e) reply = Inl x \<longleftrightarrow>
             (\<exists>raw. strip_fences_guarded (py_strip reply) = Inr raw \<and> loads e raw = Raised x)"
    for reply
    using strip_fences_guarded_returns [of "py_strip reply"]
    by (auto simp: parse_intent_reply_def parsed_or_empty_def split: loads_result.splits)
  show ?thesis
    by (auto simp: understand_question_def p split: sum.splits option.splits)
qed

text \<open>A reply that is one fence line leaves the empty text, which is not JSON.\<close>

lemma understand_question_single_fence:
  "understand_question (double (Inr None) (Inr []) (Inr (Some ''```json'')))
     ''Who directed Inception?'' = Inr (JObj [])"
  by code_simp

text \<open>
  C9, as stated, fails: the reply \<open>[1, 2]\<close> is valid JSON, and what
  \<open>understand_question\<close> returns for it is a list, not a dictionary.
\<close>

theorem understand_question_list_reply:
  "understand_question (double (Inr None) (Inr []) (Inr (Some ''[1, 2]'')))
     ''Who directed Inception?'' = Inr (JArr [JInt 1, JInt 2]) \<and>
   (\<nexists>kvs. understand_question (double (Inr None) (Inr []) (Inr (Some ''[1, 2]'')))
            ''Who directed Inception?'' = Inr (JObj kvs))"
proof -
  have "understand_question (double (Inr None) (Inr []) (Inr (Some ''[1, 2]'')))
          ''Who directed Inception?'' = Inr (JArr [JInt 1, JInt 2])"
    by code_simp
  then show ?thesis by simp
qed

text \<open>The first line of a text that starts with a fence starts with the fence.\<close>

lemma splitlines_from_prefix:
  "splitlines_from cur s = l # ls \<Longrightarrow> prefix cur l"
  by (induction cur s arbitrary: l ls rule: splitlines_from.induct)
     (auto split: if_splits dest: append_prefixD)

lemma splitlines_fence:
  assumes "startswith raw fence" and "splitlines raw = l # ls"
  shows "startswith l fence"
proof -
  from assms(1) obtain rest where raw: "raw = fence @ rest"
    by (auto simp: startswith_def prefix_def)
  have "splitlines raw = splitlines_from fence rest"
    by (simp add: raw splitlines_def fence_def py_islinebreak_def)
  with assms(2) have "prefix fence l" by (auto dest: splitlines_from_prefix)
  then show ?thesis by (simp add: startswith_def)
qed

text \<open>
  The three cases of the unguarded stripping: no fence, a fenced text of one line
  (the second index is read on the empty list), a fenced text of more lines.
\<close>

lemma strip_fences_unguarded_plain:
  "\<not> startswith raw fence \<Longrightarrow> strip_fences_unguarded raw = Inr raw"
  by (simp add: strip_fences_unguarded_def)

lemma strip_fences_unguarded_single_line:
  assumes "startswith raw fence" and "splitlines raw = [l]"
  shows "strip_fences_unguarded raw = Inl IndexError"
  using assms splitlines_fence [OF assms]
  by (simp add: strip_fences_unguarded_def first_item_def last_item_def Let_def)

lemma strip_fences_unguarded_lines:
  assumes "startswith raw fence" and "splitlines raw = l # m # ms"
  shows "strip_fences_unguarded raw =
           Inr (py_join newline
                 (if startswith (last (m # ms)) fence then butlast (m # ms) else m # ms))"
  using assms splitlines_fence [OF assms]
  by (simp add: strip_fences_unguarded_def first_item_def last_item_def Let_def)

text \<open>
  So \<open>generate_cypher\<close> raises \<open>IndexError\<close> on every reply that, stripped, is one
  line starting with a fence; on every other reply the parser is called, and the method
  returns its value, or the empty dict on \<open>JSONDecodeError\<close>, or raises what it raises.
\<close>

lemma parse_cypher_reply_single_line:
  assumes "startswith (py_strip reply) fence" and "splitlines (py_strip reply) = [l]"
  shows "parse_cypher_reply L reply = Inl IndexError"
  using strip_fences_unguarded_single_line [OF assms]
  by (simp add: parse_cypher_reply_def)

lemma parse_cypher_reply_plain:
  assumes "\<not> startswith (py_strip reply) fence"
  shows "parse_cypher_reply L reply = parsed_or_empty (L (py_strip reply))"
  using strip_fences_unguarded_plain [OF assms]
  by (simp add: parse_cypher_reply_def)

lemma parse_cypher_reply_lines:
  assumes "startswith (py_strip reply) fence" and "splitlines (py_strip reply) = l # m # ms"
  shows "parse_cypher_reply L reply =
           parsed_or_empty
             (L (py_join newline
                   (if startswith (last (m # ms)) fence then butlast (m # ms) else m # ms)))"
  using strip_fences_unguarded_lines [OF assms]
  by (simp add: parse_cypher_reply_def)

text \<open>
  C4 fails on the code. When the model's reply is a single fence line,
  \<open>generate_cypher\<close> of either chatbot raises \<open>IndexError\<close> instead of returning the
  empty dict.
\<close>

theorem generate_cypher_single_fence_raises:
  "MovieChatbot_generate_cypher (double (Inr (Some ''```json'')) (Inr []) (Inr None))
     ''Which movies did Christopher Nolan direct?'' = Inl IndexError \<and>
   GeminiMovieChatbot_generate_cypher (double (Inr (Some ''```json'')) (Inr []) (Inr None))
     ''Which movies did Christopher Nolan direct?'' = Inl IndexError"
  by code_simp

section \<open>The paths of chat\<close>

lemma driver_append_turn [simp]:
  "sessions_opened (append_turn r c s) = sessions_opened s"
  "queries_run (append_turn r c s) = queries_run s"
  by (simp_all add: append_turn_def)

lemma MovieChatbot_respond_driver [simp]:
  "sessions_opened (snd (MovieChatbot_respond e q records s)) = sessions_opened s"
  "queries_run (snd (MovieChatbot_respond e q records s)) = queries_run s"
  by (simp_all add: MovieChatbot_respond_def Let_def split: sum.split option.split)

lemma GeminiMovieChatbot_respond_driver [simp]:
  "sessions_opened (snd (GeminiMovieChatbot_respond e q records s)) = sessions_opened s"
  "queries_run (snd (GeminiMovieChatbot_respond e q records s)) = queries_run s"
  by (simp_all add: GeminiMovieChatbot_respond_def Let_def split: sum.split option.split)

text \<open>What \<open>chat\<close> does once the translation gave a dict with a dict of parameters.\<close>

lemma MovieChatbot_chat_run:
  assumes "MovieChatbot_generate_cypher e q = Inr info"
    and "dict_get info ''query'' JNull = Inr qv"
    and "dict_get info ''params'' (JObj []) = Inr (JObj kw)"
  shows "MovieChatbot_chat e q s =
     (case session_run e qv kw of
        Inl x \<Rightarrow> (Inl x, snd (run_in_session e qv kw (append_turn ''user'' q s)))
      | Inr records \<Rightarrow>
          MovieChatbot_respond e q records
            (snd (run_in_session e qv kw (append_turn ''user'' q s))))"
  using assms
  by (simp add: MovieChatbot_chat_def execute_query_def run_in_session_def Let_def
           split: sum.split)

lemma GeminiMovieChatbot_chat_run:
  assumes "GeminiMovieChatbot_generate_cypher e q = Inr info"
    and "dict_get info ''query'' JNull = Inr qv"
    and "py_truthy qv"
    and "dict_get info ''params'' (JObj []) = Inr (JObj kw)"
  shows "GeminiMovieChatbot_chat e q s =
     (case session_run e qv kw of
        Inl x \<Rightarrow> (Inl x, snd (run_in_session e qv kw (append_turn ''user'' q s)))
      | Inr records \<Rightarrow>
          GeminiMovieChatbot_respond e q records
            (snd (run_in_session e qv kw (append_turn ''user'' q s))))"
  using assms
  by (simp add: GeminiMovieChatbot_chat_def execute_query_def run_in_session_def Let_def
           split: sum.split)

text \<open>With no query in the translation, the Gemini chatbot stops before the store.\<close>

lemma GeminiMovieChatbot_chat_no_query:
  assumes "GeminiMovieChatbot_generate_cypher e q = Inr (JObj kvs)"
    and "dict_get (JObj kvs) ''query'' JNull = Inr qv"
    and "\<not> py_truthy qv"
  shows "GeminiMovieChatbot_chat e q s = (Inr Gemini_no_query, append_turn ''user'' q s)"
  using assms
  by (simp add: GeminiMovieChatbot_chat_def dict_get_def Let_def)

lemma GeminiMovieChatbot_chat_malformed:
  "GeminiMovieChatbot_chat (double (Inr (Some malformed_reply)) (Inl empty_query_error) (Inr None))
     ''What is the rating of Inception?'' new_bot =
   (Inr Gemini_no_query,
    \<lparr>history = [\<lparr>role = ''user'', content = ''What is the rating of Inception?''\<rparr>],
     sessions_opened = 0, queries_run = []\<rparr>)"
  by code_simp

text \<open>The other chatbot goes on to the store with the query \<open>None\<close>.\<close>

lemma MovieChatbot_chat_absent_query:
  assumes "MovieChatbot_generate_cypher e q = Inr (JObj kvs)"
    and "map_of kvs ''query'' = None"
    and "map_of kvs ''params'' = None"
  shows "sessions_opened (snd (MovieChatbot_chat e q s)) = sessions_opened s + 1 \<and>
         queries_run (snd (MovieChatbot_chat e q s)) = queries_run s @ [(JNull, [])]"
proof -
  have "dict_get (JObj kvs) ''query'' JNull = Inr JNull"
    and "dict_get (JObj kvs) ''params'' (JObj []) = Inr (JObj [])"
    using assms(2,3) by (simp_all add: dict_get_def)
  from MovieChatbot_chat_run [OF assms(1) this]
  show ?thesis by (simp add: run_in_session_def split: sum.split)
qed

text \<open>
  C1 fails on \<open>MovieChatbot.chat\<close>. The reply is fenced and is not JSON, so the
  translation is the empty dict; the chatbot opens a session and calls \<open>session.run\<close>
  with the query \<open>None\<close>, and what the endpoint answers is the driver's error, not an
  apology for the question.
\<close>

theorem MovieChatbot_chat_runs_without_query:
  "MovieChatbot_chat (double (Inr (Some malformed_reply)) (Inl empty_query_error) (Inr None))
     ''What is the rating of Inception?'' new_bot =
   (Inl empty_query_error,
    \<lparr>history = [\<lparr>role = ''user'', content = ''What is the rating of Inception?''\<rparr>],
     sessions_opened = 1, queries_run = [(JNull, [])]\<rparr>) \<and>
   fst (chat (double (Inr (Some malformed_reply)) (Inl empty_query_error) (Inr None))
     \<lparr>question = Some ''What is the rating of Inception?'', model = Some ''deepseek''\<rparr> new_app) =
   ''Sorry, I had a problem: Cannot run an empty query''"
  by code_simp

section \<open>The rating scenario on the test double\<close>

lemma double_translation:
  "MovieChatbot_generate_cypher (double (Inr (Some rating_reply)) st sy) rating_question
     = Inr rating_info"
  "GeminiMovieChatbot_generate_cypher (double (Inr (Some rating_reply)) st sy) rating_question
     = Inr rating_info"
  by code_simp+

lemma rating_info_gets:
  "dict_get rating_info ''query'' JNull = Inr rating_query"
  "dict_get rating_info ''params'' (JObj []) = Inr (JObj [(''title'', JStr ''Inception'')])"
  "py_truthy rating_query"
  by code_simp+

lemma double_chat_run:
  "MovieChatbot_chat (double (Inr (Some rating_reply)) st sy) rating_question s =
     (case st of
        Inl x \<Rightarrow> (Inl x, snd (run_in_session (double (Inr (Some rating_reply)) st sy) rating_query
                     [(''title'', JStr ''Inception'')] (append_turn ''user'' rating_question s)))
      | Inr records \<Rightarrow>
          MovieChatbot_respond (double (Inr (Some rating_reply)) st sy) rating_question records
            (snd (run_in_session (double (Inr (Some rating_reply)) st sy) rating_query
                     [(''title'', JStr ''Inception'')] (append_turn ''user'' rating_question s))))"
  "GeminiMovieChatbot_chat (double (Inr (Some rating_reply)) st sy) rating_question s =
     (case st of
        Inl x \<Rightarrow> (Inl x, snd (run_in_session (double (Inr (Some rating_reply)) st sy) rating_query
                     [(''title'', JStr ''Inception'')] (append_turn ''user'' rating_question s)))
      | Inr records \<Rightarrow>
          GeminiMovieChatbot_respond (double (Inr (Some rating_reply)) st sy) rating_question records
            (snd (run_in_session (double (Inr (Some rating_reply)) st sy) rating_query
                     [(''title'', JStr ''Inception'')] (append_turn ''user'' rating_question s))))"
proof -
  have run: "session_run (double (Inr (Some rating_reply)) st sy) rating_query
               [(''title'', JStr ''Inception'')] = st"
    by (simp add: double_def)
  show "MovieChatbot_chat (double (Inr (Some rating_reply)) st sy) rating_question s =
     (case st of
        Inl x \<Rightarrow> (Inl x, snd (run_in_session (double (Inr (Some rating_reply)) st sy) rating_query
                     [(''title'', JStr ''Inception'')] (append_turn ''user'' rating_question s)))
      | Inr records \<Rightarrow>
          MovieChatbot_respond (double (Inr (Some rating_reply)) st sy) rating_question records
            (snd (run_in_session (double (Inr (Some rating_reply)) st sy) rating_query
                     [(''title'', JStr ''Inception'')] (append_turn ''user'' rating_question s))))"
    using MovieChatbot_chat_run [OF double_translation(1) rating_info_gets(1,2)]
    by (simp add: run)
  show "GeminiMovieChatbot_chat (double (Inr (Some rating_reply)) st sy) rating_question s =
     (case st of
        Inl x \<Rightarrow> (Inl x, snd (run_in_session (double (Inr (Some rating_reply)) st sy) rating_query
                     [(''title'', JStr ''Inception'')] (append_turn ''user'' rating_question s)))
      | Inr records \<Rightarrow>
          GeminiMovieChatbot_respond (double (Inr (Some rating_reply)) st sy) rating_question records
            (snd (run_in_session (double (Inr (Some rating_reply)) st sy) rating_query
                     [(''title'', JStr ''Inception'')] (append_turn ''user'' rating_question s))))"
    using GeminiMovieChatbot_chat_run [OF double_translation(2) rating_info_gets(1,3,2)]
    by (simp add: run)
qed

section \<open>An execution that returns no record\<close>

text \<open>
  C2, as amended. When the translation gives a query (for the Gemini chatbot, a
  truthy one) with a dict of parameters and the store returns zero records, \<open>chat\<close>
  returns the chatbot's fixed no-results message, and the history grows by exactly one
  turn, the user's question: the message is not appended.
\<close>

theorem no_results_not_recorded:
  "(MovieChatbot_generate_cypher e q = Inr info \<and>
    dict_get info ''query'' JNull = Inr qv \<and>
    dict_get info ''params'' (JObj []) = Inr (JObj kw) \<and>
    session_run e qv kw = Inr []
    \<longrightarrow> fst (MovieChatbot_chat e q s) = Inr MovieChatbot_no_results \<and>
        history (snd (MovieChatbot_chat e q s)) =
          history s @ [\<lparr>role = ''user'', content = q\<rparr>]) \<and>
   (GeminiMovieChatbot_generate_cypher e q = Inr info \<and>
    dict_get info ''query'' JNull = Inr qv \<and> py_truthy qv \<and>
    dict_get info ''params'' (JObj []) = Inr (JObj kw) \<and>
    session_run e qv kw = Inr []
    \<longrightarrow> fst (GeminiMovieChatbot_chat e q s) = Inr Gemini_no_results \<and>
        history (snd (GeminiMovieChatbot_chat e q s)) =
          history s @ [\<lparr>role = ''user'', content = q\<rparr>])"
proof (intro conjI impI)
  assume h: "MovieChatbot_generate_cypher e q = Inr info \<and>
    dict_get info ''query'' JNull = Inr qv \<and>
    dict_get info ''params'' (JObj []) = Inr (JObj kw) \<and>
    session_run e qv kw = Inr []"
  then have "MovieChatbot_chat e q s =
      MovieChatbot_respond e q [] (snd (run_in_session e qv kw (append_turn ''user'' q s)))"
    by (simp add: MovieChatbot_chat_run [of e q info qv kw])
  then show "fst (MovieChatbot_chat e q s) = Inr MovieChatbot_no_results"
    and "history (snd (MovieChatbot_chat e q s)) =
           history s @ [\<lparr>role = ''user'', content = q\<rparr>]"
    by (simp_all add: MovieChatbot_respond_def)
next
  assume h: "GeminiMovieChatbot_generate_cypher e q = Inr info \<and>
    dict_get info ''query'' JNull = Inr qv \<and> py_truthy qv \<and>
    dict_get info ''params'' (JObj []) = Inr (JObj kw) \<and>
    session_run e qv kw = Inr []"
  then have "GeminiMovieChatbot_chat e q s =
      GeminiMovieChatbot_respond e q [] (snd (run_in_session e qv kw (append_turn ''user'' q s)))"
    by (simp add: GeminiMovieChatbot_chat_run [of e q info qv kw])
  then show "fst (GeminiMovieChatbot_chat e q s) = Inr Gemini_no_results"
    and "history (snd (GeminiMovieChatbot_chat e q s)) =
           history s @ [\<lparr>role = ''user'', content = q\<rparr>]"
    by (simp_all add: GeminiMovieChatbot_respond_def)
qed

text \<open>The rating scenario on an empty store, for both chatbots.\<close>

theorem no_results_not_recorded_witness:
  "fst (MovieChatbot_chat (double (Inr (Some rating_reply)) (Inr []) (Inr None))
          rating_question new_bot) = Inr MovieChatbot_no_results \<and>
   history (snd (MovieChatbot_chat (double (Inr (Some rating_reply)) (Inr []) (Inr None))
          rating_question new_bot)) = [\<lparr>role = ''user'', content = rating_question\<rparr>] \<and>
   fst (GeminiMovieChatbot_chat (double (Inr (Some rating_reply)) (Inr []) (Inr None))
          rating_question new_bot) = Inr Gemini_no_results \<and>
   history (snd (GeminiMovieChatbot_chat (double (Inr (Some rating_reply)) (Inr []) (Inr None))
          rating_question new_bot)) = [\<lparr>role = ''user'', content = rating_question\<rparr>]"
proof -
  let ?e = "double (Inr (Some rating_reply)) (Inr []) (Inr None)"
  have run: "session_run ?e rating_query [(''title'', JStr ''Inception'')] = Inr []"
    by (simp add: double_def)
  show ?thesis
    using no_results_not_recorded
      [of ?e rating_question rating_info rating_query "[(''title'', JStr ''Inception'')]" new_bot]
      double_translation [of "Inr []" "Inr None"] rating_info_gets run
    by (simp add: new_bot_def)
qed

text \<open>
  C2, as stated, fails: on an empty store both chatbots return their no-results
  message, and the history of a fresh chatbot then holds the user's question alone: it
  has grown by one turn, not two, and holds no assistant turn.
\<close>

theorem no_results_history_grows_by_one:
  "fst (MovieChatbot_chat (double (Inr (Some rating_reply)) (Inr []) (Inr None))
          rating_question new_bot) = Inr MovieChatbot_no_results \<and>
   history (snd (MovieChatbot_chat (double (Inr (Some rating_reply)) (Inr []) (Inr None))
          rating_question new_bot)) = [\<lparr>role = ''user'', content = rating_question\<rparr>] \<and>
   length (history (snd (MovieChatbot_chat (double (Inr (Some rating_reply)) (Inr []) (Inr None))
          rating_question new_bot))) \<noteq> length (history new_bot) + 2 \<and>
   fst (GeminiMovieChatbot_chat (double (Inr (Some rating_reply)) (Inr []) (Inr None))
          rating_question new_bot) = Inr Gemini_no_results \<and>
   history (snd (GeminiMovieChatbot_chat (double (Inr (Some rating_reply)) (Inr []) (Inr None))
          rating_question new_bot)) = [\<lparr>role = ''user'', content = rating_question\<rparr>] \<and>
   length (history (snd (GeminiMovieChatbot_chat (double (Inr (Some rating_reply)) (Inr []) (Inr None))
          rating_question new_bot))) \<noteq> length (history new_bot) + 2"
  by (simp add: double_chat_run MovieChatbot_respond_def GeminiMovieChatbot_respond_def
        run_in_session_def new_bot_def)

section \<open>An execution that returns records\<close>

lemma rating_block_eq:
  "results_block (\<lambda>v. v) rating_question rating_records = rating_block"
  by code_simp

lemma strip_rating_answer: "py_strip rating_answer = ''The rating of Inception is 8.8.''"
  by code_simp

lemma double_synthesis:
  "chat_completion (double tr st sy) (m # h @ [t, u]) = sy"
  "generate_content (double tr st sy) (combined h) = sy"
  by (simp_all add: double_def combined_def Gemini_system_msg_def startswith_def)

text \<open>
  C5, as amended. When the translation gives a query (for the Gemini chatbot, a
  truthy one) with a dict of parameters, the store returns at least one record and the
  model answers the synthesis request with a text, \<open>chat\<close> returns the stripped text and
  the history grows by exactly three turns, in this order: the user's question; a turn
  whose role is \<open>user\<close> as well and whose content is the message that wraps the formatted
  results block; the assistant's answer. The turns before them are unchanged.
\<close>

theorem answered_history_three_turns:
  "(MovieChatbot_generate_cypher e q = Inr info \<and>
    dict_get info ''query'' JNull = Inr qv \<and>
    dict_get info ''params'' (JObj []) = Inr (JObj kw) \<and>
    session_run e qv kw = Inr records \<and> records \<noteq> [] \<and>
    chat_completion e
      (\<lparr>role = ''system'', content = MovieChatbot_system_msg\<rparr> #
       history s @
       [\<lparr>role = ''user'', content = q\<rparr>,
        \<lparr>role = ''user'', content = user_msg q (raw_text (format_value e) q records)\<rparr>])
      = Inr (Some reply)
    \<longrightarrow> fst (MovieChatbot_chat e q s) = Inr (py_strip reply) \<and>
        history (snd (MovieChatbot_chat e q s)) =
          history s @
          [\<lparr>role = ''user'', content = q\<rparr>,
           \<lparr>role = ''user'', content = user_msg q (results_block (format_value e) q records)\<rparr>,
           \<lparr>role = ''assistant'', content = py_strip reply\<rparr>]) \<and>
   (GeminiMovieChatbot_generate_cypher e q = Inr info \<and>
    dict_get info ''query'' JNull = Inr qv \<and> py_truthy qv \<and>
    dict_get info ''params'' (JObj []) = Inr (JObj kw) \<and>
    session_run e qv kw = Inr records \<and> records \<noteq> [] \<and>
    generate_content e
      (combined
        (history s @
         [\<lparr>role = ''user'', content = q\<rparr>,
          \<lparr>role = ''user'', content = user_msg q (raw_text (format_value e) q records)\<rparr>]))
      = Inr (Some reply)
    \<longrightarrow> fst (GeminiMovieChatbot_chat e q s) = Inr (py_strip reply) \<and>
        history (snd (GeminiMovieChatbot_chat e q s)) =
          history s @
          [\<lparr>role = ''user'', content = q\<rparr>,
           \<lparr>role = ''user'', content = user_msg q (results_block (format_value e) q records)\<rparr>,
           \<lparr>role = ''assistant'', content = py_strip reply\<rparr>])"
proof (intro conjI impI)
  assume h: "MovieChatbot_generate_cypher e q = Inr info \<and>
    dict_get info ''query'' JNull = Inr qv \<and>
    dict_get info ''params'' (JObj []) = Inr (JObj kw) \<and>
    session_run e qv kw = Inr records \<and> records \<noteq> [] \<and>
    chat_completion e
      (\<lparr>role = ''system'', content = MovieChatbot_system_msg\<rparr> #
       history s @
       [\<lparr>role = ''user'', content = q\<rparr>,
        \<lparr>role = ''user'', content = user_msg q (raw_text (format_value e) q records)\<rparr>])
      = Inr (Some reply)"
  then have "MovieChatbot_chat e q s =
      MovieChatbot_respond e q records (snd (run_in_session e qv kw (append_turn ''user'' q s)))"
    by (simp add: MovieChatbot_chat_run [of e q info qv kw])
  with h show "fst (MovieChatbot_chat e q s) = Inr (py_strip reply)"
    and "history (snd (MovieChatbot_chat e q s)) =
          history s @
          [\<lparr>role = ''user'', content = q\<rparr>,
           \<lparr>role = ''user'', content = user_msg q (results_block (format_value e) q records)\<rparr>,
           \<lparr>role = ''assistant'', content = py_strip reply\<rparr>]"
    by (simp_all add: MovieChatbot_respond_def Let_def raw_text_def results_block_def
          foldl_append_record)
next
  assume h: "GeminiMovieChatbot_generate_cypher e q = Inr info \<and>
    dict_get info ''query'' JNull = Inr qv \<and> py_truthy qv \<and>
    dict_get info ''params'' (JObj []) = Inr (JObj kw) \<and>
    session_run e qv kw = Inr records \<and> records \<noteq> [] \<and>
    generate_content e
      (combined
        (history s @
         [\<lparr>role = ''user'', content = q\<rparr>,
          \<lparr>role = ''user'', content = user_msg q (raw_text (format_value e) q records)\<rparr>]))
      = Inr (Some reply)"
  then have "GeminiMovieChatbot_chat e q s =
      GeminiMovieChatbot_respond e q records (snd (run_in_session e qv kw (append_turn ''user'' q s)))"
    by (simp add: GeminiMovieChatbot_chat_run [of e q info qv kw])
  with h show "fst (GeminiMovieChatbot_chat e q s) = Inr (py_strip reply)"
    and "history (snd (GeminiMovieChatbot_chat e q s)) =
          history s @
          [\<lparr>role = ''user'', content = q\<rparr>,
           \<lparr>role = ''user'', content = user_msg q (results_block (format_value e) q records)\<rparr>,
           \<lparr>role = ''assistant'', content = py_strip reply\<rparr>]"
    by (simp_all add: GeminiMovieChatbot_respond_def Let_def raw_text_def results_block_def
          foldl_append_record)
qed

text \<open>The rating scenario with one record, for both chatbots.\<close>

theorem answered_history_three_turns_witness:
  "fst (MovieChatbot_chat (double (Inr (Some rating_reply)) (Inr rating_records) (Inr (Some rating_answer)))
          rating_question new_bot) = Inr ''The rating of Inception is 8.8.'' \<and>
   history (snd (MovieChatbot_chat (double (Inr (Some rating_reply)) (Inr rating_records) (Inr (Some rating_answer)))
          rating_question new_bot)) =
     [\<lparr>role = ''user'', content = rating_question\<rparr>,
      \<lparr>role = ''user'', content = user_msg rating_question rating_block\<rparr>,
      \<lparr>role = ''assistant'', content = ''The rating of Inception is 8.8.''\<rparr>] \<and>
   fst (GeminiMovieChatbot_chat (double (Inr (Some rating_reply)) (Inr rating_records) (Inr (Some rating_answer)))
          rating_question new_bot) = Inr ''The rating of Inception is 8.8.'' \<and>
   history (snd (GeminiMovieChatbot_chat (double (Inr (Some rating_reply)) (Inr rating_records) (Inr (Some rating_answer)))
          rating_question new_bot)) =
     [\<lparr>role = ''user'', content = rating_question\<rparr>,
      \<lparr>role = ''user'', content = user_msg rating_question rating_block\<rparr>,
      \<lparr>role = ''assistant'', content = ''The rating of Inception is 8.8.''\<rparr>]"
proof -
  let ?e = "double (Inr (Some rating_reply)) (Inr rating_records) (Inr (Some rating_answer))"
  have run: "session_run ?e rating_query [(''title'', JStr ''Inception'')] = Inr rating_records"
    and fmt: "format_value ?e = (\<lambda>v. v)"
    by (simp_all add: double_def)
  have ne: "rating_records \<noteq> []" by (simp add: rating_records_def)
  show ?thesis
    using answered_history_three_turns
      [of ?e rating_question rating_info rating_query "[(''title'', JStr ''Inception'')]"
          rating_records new_bot rating_answer]
      double_translation [of "Inr rating_records" "Inr (Some rating_answer)"] rating_info_gets
      run ne double_synthesis(1) [of "Inr (Some rating_reply)" "Inr rating_records" "Inr (Some rating_answer)" _ "[]"]
      double_synthesis(2) [of "Inr (Some rating_reply)" "Inr rating_records" "Inr (Some rating_answer)"]
    by (simp add: new_bot_def fmt rating_block_eq strip_rating_answer)
qed

text \<open>
  C5, as stated, fails: the turn that holds the results block has no role of its
  own. In the rating scenario the roles of the three turns are user, user, assistant.
\<close>

theorem context_turn_has_user_role:
  "map role (history (snd (MovieChatbot_chat
      (double (Inr (Some rating_reply)) (Inr rating_records) (Inr (Some rating_answer)))
      rating_question new_bot))) = [''user'', ''user'', ''assistant''] \<and>
   map role (history (snd (GeminiMovieChatbot_chat
      (double (Inr (Some rating_reply)) (Inr rating_records) (Inr (Some rating_answer)))
      rating_question new_bot))) = [''user'', ''user'', ''assistant'']"
  by (simp add: double_chat_run MovieChatbot_respond_def GeminiMovieChatbot_respond_def
        run_in_session_def new_bot_def double_synthesis rating_records_def Let_def
        double_synthesis(1) [of _ _ _ _ "[]", simplified])

section \<open>Failures at the endpoint\<close>

text \<open>
  What \<open>chat\<close> raises: what the translation raises; what the store raises; what the
  model call of the synthesis raises.
\<close>

lemma MovieChatbot_chat_raises:
  "MovieChatbot_generate_cypher e q = Inl x \<Longrightarrow> fst (MovieChatbot_chat e q s) = Inl x"
  "MovieChatbot_generate_cypher e q = Inr info \<Longrightarrow> dict_get info ''query'' JNull = Inr qv \<Longrightarrow>
   dict_get info ''params'' (JObj []) = Inr (JObj kw) \<Longrightarrow> session_run e qv kw = Inl x \<Longrightarrow>
   fst (MovieChatbot_chat e q s) = Inl x"
  "MovieChatbot_generate_cypher e q = Inr info \<Longrightarrow> dict_get info ''query'' JNull = Inr qv \<Longrightarrow>
   dict_get info ''params'' (JObj []) = Inr (JObj kw) \<Longrightarrow> session_run e qv kw = Inr records \<Longrightarrow>
   records \<noteq> [] \<Longrightarrow>
   chat_completion e
      (\<lparr>role = ''system'', content = MovieChatbot_system_msg\<rparr> #
       history s @
       [\<lparr>role = ''user'', content = q\<rparr>,
        \<lparr>role = ''user'', content = user_msg q (raw_text (format_value e) q records)\<rparr>]) = Inl x \<Longrightarrow>
   fst (MovieChatbot_chat e q s) = Inl x"
    apply (simp add: MovieChatbot_chat_def Let_def)
   apply (simp add: MovieChatbot_chat_run [of e q info qv kw])
  apply (simp add: MovieChatbot_chat_run [of e q info qv kw] MovieChatbot_respond_def Let_def)
  done

lemma GeminiMovieChatbot_chat_raises:
  "GeminiMovieChatbot_generate_cypher e q = Inl x \<Longrightarrow> fst (GeminiMovieChatbot_chat e q s) = Inl x"
  "GeminiMovieChatbot_generate_cypher e q = Inr info \<Longrightarrow> dict_get info ''query'' JNull = Inr qv \<Longrightarrow>
   py_truthy qv \<Longrightarrow>
   dict_get info ''params'' (JObj []) = Inr (JObj kw) \<Longrightarrow> session_run e qv kw = Inl x \<Longrightarrow>
   fst (GeminiMovieChatbot_chat e q s) = Inl x"
  "GeminiMovieChatbot_generate_cypher e q = Inr info \<Longrightarrow> dict_get info ''query'' JNull = Inr qv \<Longrightarrow>
   py_truthy qv \<Longrightarrow>
   dict_get info ''params'' (JObj []) = Inr (JObj kw) \<Longrightarrow> session_run e qv kw = Inr records \<Longrightarrow>
   records \<noteq> [] \<Longrightarrow>
   generate_content e
      (combined
        (history s @
         [\<lparr>role = ''user'', content = q\<rparr>,
          \<lparr>role = ''user'', content = user_msg q (raw_text (format_value e) q records)\<rparr>])) = Inl x \<Longrightarrow>
   fst (GeminiMovieChatbot_chat e q s) = Inl x"
    apply (simp add: GeminiMovieChatbot_chat_def Let_def)
   apply (simp add: GeminiMovieChatbot_chat_run [of e q info qv kw])
  apply (simp add: GeminiMovieChatbot_chat_run [of e q info qv kw] GeminiMovieChatbot_respond_def Let_def)
  done

text \<open>
  And: \<open>AttributeError\<close> when the translation is JSON but not an object;
  \<open>TypeError\<close> when its parameters are not a mapping; \<open>AttributeError\<close> when the
  reply of the synthesis has no text.
\<close>

lemma MovieChatbot_chat_raises_more:
  "MovieChatbot_generate_cypher e q = Inr info \<Longrightarrow> dict_get info ''query'' JNull = Inl x \<Longrightarrow>
   fst (MovieChatbot_chat e q s) = Inl x"
  "MovieChatbot_generate_cypher e q = Inr info \<Longrightarrow> dict_get info ''query'' JNull = Inr qv \<Longrightarrow>
   dict_get info ''params'' (JObj []) = Inr p \<Longrightarrow> \<forall>kw. p \<noteq> JObj kw \<Longrightarrow>
   fst (MovieChatbot_chat e q s) = Inl (TypeError_kwargs (run_name e) p)"
  "MovieChatbot_generate_cypher e q = Inr info \<Longrightarrow> dict_get info ''query'' JNull = Inr qv \<Longrightarrow>
   dict_get info ''params'' (JObj []) = Inr (JObj kw) \<Longrightarrow> session_run e qv kw = Inr records \<Longrightarrow>
   records \<noteq> [] \<Longrightarrow>
   chat_completion e
      (\<lparr>role = ''system'', content = MovieChatbot_system_msg\<rparr> #
       history s @
       [\<lparr>role = ''user'', content = q\<rparr>,
        \<lparr>role = ''user'', content = user_msg q (raw_text (format_value e) q records)\<rparr>]) = Inr None \<Longrightarrow>
   fst (MovieChatbot_chat e q s) = Inl (AttributeError ''NoneType'' ''strip'')"
    apply (simp add: MovieChatbot_chat_def Let_def)
   apply (cases p; simp add: MovieChatbot_chat_def Let_def execute_query_def)
  apply (simp add: MovieChatbot_chat_run [of e q info qv kw] MovieChatbot_respond_def Let_def)
  done

lemma GeminiMovieChatbot_chat_raises_more:
  "GeminiMovieChatbot_generate_cypher e q = Inr info \<Longrightarrow> dict_get info ''query'' JNull = Inl x \<Longrightarrow>
   fst (GeminiMovieChatbot_chat e q s) = Inl x"
  "GeminiMovieChatbot_generate_cypher e q = Inr info \<Longrightarrow> dict_get info ''query'' JNull = Inr qv \<Longrightarrow>
   py_truthy qv \<Longrightarrow>
   dict_get info ''params'' (JObj []) = Inr p \<Longrightarrow> \<forall>kw. p \<noteq> JObj kw \<Longrightarrow>
   fst (GeminiMovieChatbot_chat e q s) = Inl (TypeError_kwargs (run_name e) p)"
  "GeminiMovieChatbot_generate_cypher e q = Inr info \<Longrightarrow> dict_get info ''query'' JNull = Inr qv \<Longrightarrow>
   py_truthy qv \<Longrightarrow>
   dict_get info ''params'' (JObj []) = Inr (JObj kw) \<Longrightarrow> session_run e qv kw = Inr records \<Longrightarrow>
   records \<noteq> [] \<Longrightarrow>
   generate_content e
      (combined
        (history s @
         [\<lparr>role = ''user'', content = q\<rparr>,
          \<lparr>role = ''user'', content = user_msg q (raw_text (format_value e) q records)\<rparr>])) = Inr None \<Longrightarrow>
   fst (GeminiMovieChatbot_chat e q s) = Inl (AttributeError ''NoneType'' ''strip'')"
    apply (simp add: GeminiMovieChatbot_chat_def Let_def)
   apply (cases p; simp add: GeminiMovieChatbot_chat_def Let_def execute_query_def)
  apply (simp add: GeminiMovieChatbot_chat_run [of e q info qv kw] GeminiMovieChatbot_respond_def Let_def)
  done

text \<open>
  C3, as amended. Whatever \<open>chat\<close> of the selected chatbot raises, for whatever
  reason, in the translation, the execution or the synthesis, and whatever the request
  and the state of the application are, the endpoint does not raise: it answers with
  \<open>Sorry, I had a problem: \<close> followed by the text of the exception.
\<close>

theorem raised_in_chat_answered_with_error_text:
  "(model d \<noteq> Some ''gemini'' \<and>
    fst (MovieChatbot_chat e (case question d of Some t \<Rightarrow> t | None \<Rightarrow> []) (chatbot a)) = Inl x
    \<longrightarrow> fst (chat e d a) = problem_prefix @ exn_str x) \<and>
   (model d = Some ''gemini'' \<and>
    fst (GeminiMovieChatbot_chat e (case question d of Some t \<Rightarrow> t | None \<Rightarrow> []) (gemini_bot a)) = Inl x
    \<longrightarrow> fst (chat e d a) = problem_prefix @ exn_str x)"
  by (auto simp: chat_def Let_def split: prod.split sum.split)

lemma double_translations:
  "MovieChatbot_generate_cypher (double (Inr (Some list_reply)) st sy) q = Inr (JArr [JInt 1, JInt 2])"
  "GeminiMovieChatbot_generate_cypher (double (Inr (Some list_reply)) st sy) q = Inr (JArr [JInt 1, JInt 2])"
  "MovieChatbot_generate_cypher (double (Inr (Some list_params_reply)) st sy) q =
     Inr (JObj [(''query'', JStr ''RETURN 1''), (''params'', JArr [JInt 1])])"
  "GeminiMovieChatbot_generate_cypher (double (Inr (Some list_params_reply)) st sy) q =
     Inr (JObj [(''query'', JStr ''RETURN 1''), (''params'', JArr [JInt 1])])"
proof -
  have tr: "chat_completion (double t st sy) [m] = t"
    "generate_content (double t st sy) (cypher_prompt q) = t" for t m
    by (simp_all add: double_def cypher_prompt_def startswith_def)
  have ld: "loads (double t st sy) = json_loads" for t by (simp add: double_def) 
  have p1: "parse_cypher_reply json_loads list_reply = Inr (JArr [JInt 1, JInt 2])"
    by code_simp
  have p2: "parse_cypher_reply json_loads list_params_reply =
     Inr (JObj [(''query'', JStr ''RETURN 1''), (''params'', JArr [JInt 1])])"
    by code_simp
  show "MovieChatbot_generate_cypher (double (Inr (Some list_reply)) st sy) q = Inr (JArr [JInt 1, JInt 2])"
  "GeminiMovieChatbot_generate_cypher (double (Inr (Some list_reply)) st sy) q = Inr (JArr [JInt 1, JInt 2])"
  "MovieChatbot_generate_cypher (double (Inr (Some list_params_reply)) st sy) q =
     Inr (JObj [(''query'', JStr ''RETURN 1''), (''params'', JArr [JInt 1])])"
  "GeminiMovieChatbot_generate_cypher (double (Inr (Some list_params_reply)) st sy) q =
     Inr (JObj [(''query'', JStr ''RETURN 1''), (''params'', JArr [JInt 1])])"
    by (simp_all add: MovieChatbot_generate_cypher_def GeminiMovieChatbot_generate_cypher_def
          read_reply_def tr ld p1 p2)
qed


lemma double_translation_fails:
  "MovieChatbot_generate_cypher (double (Inl x) st sy) q = Inl x"
  "GeminiMovieChatbot_generate_cypher (double (Inl x) st sy) q = Inl x"
  by (simp_all add: MovieChatbot_generate_cypher_def GeminiMovieChatbot_generate_cypher_def
        read_reply_def double_def cypher_prompt_def startswith_def)

lemma double_raises:
  "fst (MovieChatbot_chat (double (Inl x) st sy) q s) = Inl x"
  "fst (GeminiMovieChatbot_chat (double (Inl x) st sy) q s) = Inl x"
  "fst (MovieChatbot_chat (double (Inr (Some list_reply)) st sy) q s) =
     Inl (AttributeError ''list'' ''get'')"
  "fst (GeminiMovieChatbot_chat (double (Inr (Some list_reply)) st sy) q s) =
     Inl (AttributeError ''list'' ''get'')"
  "fst (MovieChatbot_chat (double (Inr (Some list_params_reply)) st sy) q s) =
     Inl (TypeError_kwargs ''neo4j._sync.work.session.Session.run'' (JArr [JInt 1]))"
  "fst (GeminiMovieChatbot_chat (double (Inr (Some list_params_reply)) st sy) q s) =
     Inl (TypeError_kwargs ''neo4j._sync.work.session.Session.run'' (JArr [JInt 1]))"
  "fst (MovieChatbot_chat (double (Inr (Some rating_reply)) (Inl x) sy) rating_question s) = Inl x"
  "fst (GeminiMovieChatbot_chat (double (Inr (Some rating_reply)) (Inl x) sy) rating_question s) = Inl x"
  "fst (MovieChatbot_chat (double (Inr (Some rating_reply)) (Inr rating_records) (Inl x))
          rating_question s) = Inl x"
  "fst (GeminiMovieChatbot_chat (double (Inr (Some rating_reply)) (Inr rating_records) (Inl x))
          rating_question s) = Inl x"
  "fst (MovieChatbot_chat (double (Inr (Some rating_reply)) (Inr rating_records) (Inr None))
          rating_question s) = Inl (AttributeError ''NoneType'' ''strip'')"
  "fst (GeminiMovieChatbot_chat (double (Inr (Some rating_reply)) (Inr rating_records) (Inr None))
          rating_question s) = Inl (AttributeError ''NoneType'' ''strip'')"
proof -
  have rn: "run_name (double t st sy) = ''neo4j._sync.work.session.Session.run''" for t st sy
    by (simp add: double_def)
  have run: "session_run (double t st sy) qv kw = st" for t st sy qv kw
    by (simp add: double_def)
  have ne: "rating_records \<noteq> []" by (simp add: rating_records_def)
  show "fst (MovieChatbot_chat (double (Inl x) st sy) q s) = Inl x"
    by (rule MovieChatbot_chat_raises(1) [OF double_translation_fails(1)])
  show "fst (GeminiMovieChatbot_chat (double (Inl x) st sy) q s) = Inl x"
    by (rule GeminiMovieChatbot_chat_raises(1) [OF double_translation_fails(2)])
  show "fst (MovieChatbot_chat (double (Inr (Some list_reply)) st sy) q s) =
     Inl (AttributeError ''list'' ''get'')"
    by (rule MovieChatbot_chat_raises_more(1) [OF double_translations(1)])
       (simp add: dict_get_def)
  show "fst (GeminiMovieChatbot_chat (double (Inr (Some list_reply)) st sy) q s) =
     Inl (AttributeError ''list'' ''get'')"
    by (rule GeminiMovieChatbot_chat_raises_more(1) [OF double_translations(2)])
       (simp add: dict_get_def)
  show "fst (MovieChatbot_chat (double (Inr (Some list_params_reply)) st sy) q s) =
     Inl (TypeError_kwargs ''neo4j._sync.work.session.Session.run'' (JArr [JInt 1]))"
    using MovieChatbot_chat_raises_more(2)
      [OF double_translations(3), where qv = "JStr ''RETURN 1''" and p = "JArr [JInt 1]"]
    by (simp add: dict_get_def rn)
  show "fst (GeminiMovieChatbot_chat (double (Inr (Some list_params_reply)) st sy) q s) =
     Inl (TypeError_kwargs ''neo4j._sync.work.session.Session.run'' (JArr [JInt 1]))"
    using GeminiMovieChatbot_chat_raises_more(2)
      [OF double_translations(4), where qv = "JStr ''RETURN 1''" and p = "JArr [JInt 1]"]
    by (simp add: dict_get_def rn)
  show "fst (MovieChatbot_chat (double (Inr (Some rating_reply)) (Inl x) sy) rating_question s) = Inl x"
    by (rule MovieChatbot_chat_raises(2) [OF double_translation(1) rating_info_gets(1,2) run])
  show "fst (GeminiMovieChatbot_chat (double (Inr (Some rating_reply)) (Inl x) sy) rating_question s) = Inl x"
    by (rule GeminiMovieChatbot_chat_raises(2) [OF double_translation(2) rating_info_gets(1,3,2) run])
  show "fst (MovieChatbot_chat (double (Inr (Some rating_reply)) (Inr rating_records) (Inl x))
          rating_question s) = Inl x"
    by (rule MovieChatbot_chat_raises(3)
          [OF double_translation(1) rating_info_gets(1,2) run ne double_synthesis(1)])
  show "fst (GeminiMovieChatbot_chat (double (Inr (Some rating_reply)) (Inr rating_records) (Inl x))
          rating_question s) = Inl x"
    by (rule GeminiMovieChatbot_chat_raises(3)
          [OF double_translation(2) rating_info_gets(1,3,2) run ne double_synthesis(2)])
  show "fst (MovieChatbot_chat (double (Inr (Some rating_reply)) (Inr rating_records) (Inr None))
          rating_question s) = Inl (AttributeError ''NoneType'' ''strip'')"
    by (rule MovieChatbot_chat_raises_more(3)
          [OF double_translation(1) rating_info_gets(1,2) run ne double_synthesis(1)])
  show "fst (GeminiMovieChatbot_chat (double (Inr (Some rating_reply)) (Inr rating_records) (Inr None))
          rating_question s) = Inl (AttributeError ''NoneType'' ''strip'')"
    by (rule GeminiMovieChatbot_chat_raises_more(3)
          [OF double_translation(2) rating_info_gets(1,3,2) run ne double_synthesis(2)])
qed

text \<open>
  Six failures for each chatbot: the model call of the translation fails; the
  translation is a list; the parameters are a list; the store rejects the query; the
  model call of the synthesis fails; the reply of the synthesis has no text.
\<close>

theorem raised_in_chat_answered_with_error_text_witness:
  "fst (chat (double (Inl api_error) (Inr []) (Inr None)) deepseek_request new_app)
     = ''Sorry, I had a problem: Connection error.'' \<and>
   fst (chat (double (Inr (Some list_reply)) (Inr []) (Inr None)) deepseek_request new_app)
     = ''Sorry, I had a problem: 'list' object has no attribute 'get'' @ quote \<and>
   fst (chat (double (Inr (Some list_params_reply)) (Inr []) (Inr None)) deepseek_request new_app)
     = ''Sorry, I had a problem: neo4j._sync.work.session.Session.run() argument after ** must be a mapping, not list'' \<and>
   fst (chat (double (Inr (Some rating_reply)) (Inl syntax_error) (Inr None)) deepseek_request new_app)
     = ''Sorry, I had a problem: Invalid input 'RETURNS': expected a clause'' \<and>
   fst (chat (double (Inr (Some rating_reply)) (Inr rating_records) (Inl api_error)) deepseek_request new_app)
     = ''Sorry, I had a problem: Connection error.'' \<and>
   fst (chat (double (Inr (Some rating_reply)) (Inr rating_records) (Inr None)) deepseek_request new_app)
     = ''Sorry, I had a problem: 'NoneType' object has no attribute 'strip'' @ quote \<and>
   fst (chat (double (Inl api_error) (Inr []) (Inr None)) gemini_request new_app)
     = ''Sorry, I had a problem: Connection error.'' \<and>
   fst (chat (double (Inr (Some list_reply)) (Inr []) (Inr None)) gemini_request new_app)
     = ''Sorry, I had a problem: 'list' object has no attribute 'get'' @ quote \<and>
   fst (chat (double (Inr (Some list_params_reply)) (Inr []) (Inr None)) gemini_request new_app)
     = ''Sorry, I had a problem: neo4j._sync.work.session.Session.run() argument after ** must be a mapping, not list'' \<and>
   fst (chat (double (Inr (Some rating_reply)) (Inl syntax_error) (Inr None)) gemini_request new_app)
     = ''Sorry, I had a problem: Invalid input 'RETURNS': expected a clause'' \<and>
   fst (chat (double (Inr (Some rating_reply)) (Inr rating_records) (Inl api_error)) gemini_request new_app)
     = ''Sorry, I had a problem: Connection error.'' \<and>
   fst (chat (double (Inr (Some rating_reply)) (Inr rating_records) (Inr None)) gemini_request new_app)
     = ''Sorry, I had a problem: 'NoneType' object has no attribute 'strip'' @ quote"
proof -
  have req: "model deepseek_request \<noteq> Some ''gemini''"
    "(case question deepseek_request of Some t \<Rightarrow> t | None \<Rightarrow> []) = rating_question"
    "model gemini_request = Some ''gemini''"
    "(case question gemini_request of Some t \<Rightarrow> t | None \<Rightarrow> []) = rating_question"
    by (simp_all add: deepseek_request_def gemini_request_def)
  have str: "problem_prefix @ exn_str api_error = ''Sorry, I had a problem: Connection error.''"
    "problem_prefix @ exn_str syntax_error =
       ''Sorry, I had a problem: Invalid input 'RETURNS': expected a clause''"
    "problem_prefix @ exn_str (AttributeError ''list'' ''get'') =
       ''Sorry, I had a problem: 'list' object has no attribute 'get'' @ quote"
    "problem_prefix @ exn_str (AttributeError ''NoneType'' ''strip'') =
       ''Sorry, I had a problem: 'NoneType' object has no attribute 'strip'' @ quote"
    "problem_prefix @ exn_str (TypeError_kwargs ''neo4j._sync.work.session.Session.run'' (JArr [JInt 1])) =
       ''Sorry, I had a problem: neo4j._sync.work.session.Session.run() argument after ** must be a mapping, not list''"
    by (simp_all add: problem_prefix_def api_error_def syntax_error_def AttributeError_def
          TypeError_kwargs_def quote_def)
  have bots: "chatbot new_app = new_bot" "gemini_bot new_app = new_bot"
    by (simp_all add: new_app_def)
  note moviebot = raised_in_chat_answered_with_error_text [THEN conjunct1, rule_format, OF conjI]
  note geminibot = raised_in_chat_answered_with_error_text [THEN conjunct2, rule_format, OF conjI]
  show ?thesis
    unfolding str [symmetric]
    by (intro conjI moviebot [OF req(1)] geminibot [OF req(3)])
       (simp_all only: req bots double_raises)
qed

text \<open>
  C3, as stated, fails: when the store rejects the query, the answer given to the
  user holds the store's error text, and is none of the fixed messages.
\<close>

theorem store_error_text_in_answer:
  "fst (chat (double (Inr (Some rating_reply)) (Inl syntax_error) (Inr None)) gemini_request new_app)
     = ''Sorry, I had a problem: Invalid input 'RETURNS': expected a clause'' \<and>
   exn_str syntax_error = ''Invalid input 'RETURNS': expected a clause'' \<and>
   fst (chat (double (Inr (Some rating_reply)) (Inl syntax_error) (Inr None)) gemini_request new_app)
     \<notin> {MovieChatbot_no_results, Gemini_no_query, Gemini_no_results}"
proof -
  have "fst (chat (double (Inr (Some rating_reply)) (Inl syntax_error) (Inr None)) gemini_request new_app)
     = ''Sorry, I had a problem: Invalid input 'RETURNS': expected a clause''"
    by (simp add: chat_def gemini_request_def double_chat_run new_app_def problem_prefix_def
          syntax_error_def)
  then show ?thesis
    by (simp add: syntax_error_def MovieChatbot_no_results_def Gemini_no_query_def
          Gemini_no_results_def)
qed

section \<open>The block depends on the question and the records alone\<close>

text \<open>
  C7. The turn that \<open>chat\<close> appends for a non-empty record sequence holds the block
  of the formatting rule for the question and the sequence. Formatting the same
  sequence for the same question again gives the same turn, byte for byte, whatever the
  history, the driver's counters, the model or the store are the second time, and
  whichever chatbot formats it: only the way a value is shown has to be the same.
\<close>

theorem results_block_is_a_function:
  "records \<noteq> [] \<and> format_value e = format_value e'
   \<longrightarrow> history (snd (MovieChatbot_respond e q records s)) ! length (history s) =
         \<lparr>role = ''user'', content = user_msg q (results_block (format_value e) q records)\<rparr> \<and>
       history (snd (MovieChatbot_respond e' q records s')) ! length (history s') =
         history (snd (MovieChatbot_respond e q records s)) ! length (history s) \<and>
       history (snd (GeminiMovieChatbot_respond e q records s)) ! length (history s) =
         \<lparr>role = ''user'', content = user_msg q (results_block (format_value e) q records)\<rparr> \<and>
       history (snd (GeminiMovieChatbot_respond e' q records s')) ! length (history s') =
         history (snd (GeminiMovieChatbot_respond e q records s)) ! length (history s)"
  by (simp add: MovieChatbot_respond_def GeminiMovieChatbot_respond_def Let_def nth_append
        raw_text_def results_block_def foldl_append_record
        split: sum.split option.split)

text \<open>
  The rating record formatted by a fresh chatbot whose model answers, and by a used
  chatbot whose model fails.
\<close>

theorem results_block_is_a_function_witness:
  "history (snd (MovieChatbot_respond
       (double (Inr None) (Inr []) (Inr (Some ''The rating is 8.8.''))) rating_question rating_records new_bot))
     ! length (history new_bot) =
     \<lparr>role = ''user'', content = user_msg rating_question rating_block\<rparr> \<and>
   history (snd (MovieChatbot_respond
       (double (Inr None) (Inr []) (Inl api_error)) rating_question rating_records earlier_bot))
     ! length (history earlier_bot) =
     \<lparr>role = ''user'', content = user_msg rating_question rating_block\<rparr> \<and>
   history (snd (GeminiMovieChatbot_respond
       (double (Inr None) (Inr []) (Inl api_error)) rating_question rating_records earlier_bot))
     ! length (history earlier_bot) =
     \<lparr>role = ''user'', content = user_msg rating_question rating_block\<rparr>"
proof -
  have fmt: "format_value (double a b c) = (\<lambda>v. v)" for a b c
    by (simp add: double_def)
  have ne: "rating_records \<noteq> []" by (simp add: rating_records_def)
  show ?thesis
    using results_block_is_a_function
      [of rating_records "double (Inr None) (Inr []) (Inr (Some ''The rating is 8.8.''))"
          "double (Inr None) (Inr []) (Inl api_error)" rating_question new_bot earlier_bot] ne
    by (simp add: fmt rating_block_eq)
qed

end
